theory Spec2Isabelle
  imports Main "HOL-Library.Monad_Syntax"
begin

section \<open>Values on the two sides of the boundary\<close>

text \<open>
  The shim \<^verbatim>\<open>addBruShimToContext(vm, bru)\<close> wraps the operations of a host object
  \<^verbatim>\<open>bru\<close> as functions of a QuickJS context \<^verbatim>\<open>vm\<close>. Values of the host and values of
  the guest are kept apart: \<open>hval\<close> is what the host functions take and return, \<open>gval\<close>
  is what the script inside the context sees. An object is the list of its own
  enumerable members in enumeration order. A number crosses the boundary unchanged
  and no operation of the shim computes with it, so it is kept as an integer.
\<close>

datatype hval =
    HUndefined
  | HNull
  | HBool bool
  | HNum int
  | HStr string
  | HArr "hval list"
  | HObj "(string \<times> hval) list"

datatype gval =
    GUndefined
  | GNull
  | GBool bool
  | GNum int
  | GStr string
  | GArr "gval list"
  | GObj "(string \<times> gval) list"

subsection \<open>The codec\<close>

text \<open>
  Modelled from the spec: \<^verbatim>\<open>marshallToVm\<close> is required from \<^verbatim>\<open>../utils\<close>, which is not
  among the sources. Section 4.1: scalars and plain containers (ordered sequences,
  string-keyed mappings) convert structurally, preserving key order and array order.
\<close>

primrec marshallToVm :: "hval \<Rightarrow> gval" where
  "marshallToVm HUndefined = GUndefined"
| "marshallToVm HNull = GNull"
| "marshallToVm (HBool b) = GBool b"
| "marshallToVm (HNum n) = GNum n"
| "marshallToVm (HStr s) = GStr s"
| "marshallToVm (HArr xs) = GArr (map marshallToVm xs)"
| "marshallToVm (HObj ps) = GObj (map (map_prod id marshallToVm) ps)"

text \<open>
  Modelled from the spec: \<^verbatim>\<open>vm.dump\<close> is the context's own guest-to-host conversion
  (\<^verbatim>\<open>toHost\<close> of section 4.1), structural in the same way.
\<close>

primrec vm_dump :: "gval \<Rightarrow> hval" where
  "vm_dump GUndefined = HUndefined"
| "vm_dump GNull = HNull"
| "vm_dump (GBool b) = HBool b"
| "vm_dump (GNum n) = HNum n"
| "vm_dump (GStr s) = HStr s"
| "vm_dump (GArr xs) = HArr (map vm_dump xs)"
| "vm_dump (GObj ps) = HObj (map (map_prod id vm_dump) ps)"

text \<open>
  A JSON-safe value: null, a boolean, a number, a string, and arrays and objects of
  such values. \<^verbatim>\<open>undefined\<close> is not one.
\<close>

primrec json_safe :: "hval \<Rightarrow> bool" where
  "json_safe HUndefined = False"
| "json_safe HNull = True"
| "json_safe (HBool b) = True"
| "json_safe (HNum n) = True"
| "json_safe (HStr s) = True"
| "json_safe (HArr xs) = list_all json_safe xs"
| "json_safe (HObj ps) = list_all (pred_prod (\<lambda>k. True) json_safe) ps"

text \<open>
  Modelled from the spec: \<^verbatim>\<open>cleanJson\<close> is required from \<^verbatim>\<open>../../../utils\<close>, which is
  not among the sources. Section 4.1: a deep copy through a serialize/deserialize
  round trip that drops non-serializable members rather than failing the whole call.
  In JSON text a member whose value is \<^verbatim>\<open>undefined\<close> is left out of an object and
  written \<^verbatim>\<open>null\<close> in an array; a value that has no JSON text at all
  (\<^verbatim>\<open>undefined\<close> itself) is handed back as it is, since the call does not fail.
\<close>

primrec json_copy :: "hval \<Rightarrow> hval option" where
  "json_copy HUndefined = None"
| "json_copy HNull = Some HNull"
| "json_copy (HBool b) = Some (HBool b)"
| "json_copy (HNum n) = Some (HNum n)"
| "json_copy (HStr s) = Some (HStr s)"
| "json_copy (HArr xs) =
     Some (HArr (map (\<lambda>c. case c of None \<Rightarrow> HNull | Some v \<Rightarrow> v) (map json_copy xs)))"
| "json_copy (HObj ps) =
     Some (HObj (List.map_filter (\<lambda>(k, c). map_option (Pair k) c)
                   (map (map_prod id json_copy) ps)))"

definition cleanJson :: "hval \<Rightarrow> hval" where
  "cleanJson data = (case json_copy data of Some v \<Rightarrow> v | None \<Rightarrow> data)"

text \<open>
  Modelled from the spec: \<^verbatim>\<open>cleanCircularJson\<close> is required from \<^verbatim>\<open>../../../utils\<close>
  too. Section 3: the circular-safe mode breaks reference cycles before crossing. A
  value of \<open>hval\<close> is a finite tree and has no cycle, so on these values it is the
  same copy.
\<close>

definition cleanCircularJson :: "hval \<Rightarrow> hval" where
  "cleanCircularJson data = cleanJson data"

section \<open>The QuickJS context\<close>

text \<open>
  Every \<^verbatim>\<open>vm.newFunction(name, fn)\<close> of the shim wraps one host closure. The closures
  are named after the JavaScript variable the shim binds the new function to.
\<close>

datatype host_fn =
    Cwd
  | GetEnvName
  | GetCollectionName
  | GetProcessEnv
  | Interpolate
  | HasEnvVar
  | GetEnvVar
  | SetEnvVar
  | DeleteEnvVar
  | GetGlobalEnvVar
  | GetOauth2CredentialVar
  | SetGlobalEnvVar
  | HasVar
  | GetVar
  | SetVar
  | DeleteVar
  | DeleteAllVars
  | SetNextRequest
  | RunnerSkipRequest
  | RunnerStopExecution
  | RunnerSetNextRequest
  | Visualize
  | GetSecretVar
  | GetRequestVar
  | GetFolderVar
  | GetCollectionVar
  | GetTestResults
  | GetAssertionResults
  | RunRequestHandle
  | SendRequestHandle
  | Sleep

text \<open>The one function that the script evaluated by \<^verbatim>\<open>vm.evalCode\<close> defines.\<close>

datatype guest_fn = SendRequestShim

text \<open>
  What a handle, or a member of a guest object, refers to: a guest object (by its
  index in the context), a function made by \<^verbatim>\<open>vm.newFunction\<close> (its name and its
  host closure), or a function defined by guest code.
\<close>

datatype gref = RObj nat | RHostFn string host_fn | RGuestFn guest_fn

text \<open>
  A handle is the host's reference to a guest value. \<^verbatim>\<open>vm.global\<close> belongs to the
  context; every other handle is made by \<^verbatim>\<open>vm.newObject\<close> or \<^verbatim>\<open>vm.newFunction\<close> and
  lives until its \<^verbatim>\<open>dispose()\<close>.
\<close>

datatype handle = Global | Handle nat

text \<open>
  The context: its guest objects (object 0 is the global object), the live handles
  with what they refer to, the next handle to hand out, and the numbers of handles
  made and of handles disposed so far. Disposing a handle does not touch the guest
  value: an object stays reachable through the members that refer to it.
\<close>

record vm_state =
  objects :: "(string \<times> gref) list list"
  handles :: "(nat \<times> gref) list"
  next_handle :: nat
  created :: nat
  disposed :: nat

definition fresh_vm :: vm_state where
  "fresh_vm = \<lparr>objects = [[]], handles = [], next_handle = 0, created = 0, disposed = 0\<rparr>"

definition newObject :: "vm_state \<Rightarrow> handle \<times> vm_state" where
  "newObject vm =
     (Handle (next_handle vm),
      vm\<lparr>objects := objects vm @ [[]],
         handles := handles vm @ [(next_handle vm, RObj (length (objects vm)))],
         next_handle := Suc (next_handle vm),
         created := Suc (created vm)\<rparr>)"

definition newFunction :: "string \<Rightarrow> host_fn \<Rightarrow> vm_state \<Rightarrow> handle \<times> vm_state" where
  "newFunction name fn vm =
     (Handle (next_handle vm),
      vm\<lparr>handles := handles vm @ [(next_handle vm, RHostFn name fn)],
         next_handle := Suc (next_handle vm),
         created := Suc (created vm)\<rparr>)"

fun deref :: "vm_state \<Rightarrow> handle \<Rightarrow> gref option" where
  "deref vm Global = Some (RObj 0)"
| "deref vm (Handle n) = map_of (handles vm) n"

text \<open>Assignment to a member: an existing key keeps its place, a new key goes last.\<close>

fun set_member :: "string \<Rightarrow> gref \<Rightarrow> (string \<times> gref) list \<Rightarrow> (string \<times> gref) list" where
  "set_member key r [] = [(key, r)]"
| "set_member key r ((k, v) # ps) =
     (if k = key then (k, r) # ps else (k, v) # set_member key r ps)"

text \<open>
  \<^verbatim>\<open>vm.setProp(target, key, value)\<close>. Both handles must be alive, and the shim only
  sets members of objects; anything else is \<open>None\<close>, the exception of the context.
\<close>

definition setProp :: "handle \<Rightarrow> string \<Rightarrow> handle \<Rightarrow> vm_state \<Rightarrow> vm_state option" where
  "setProp target key val vm =
     (case (deref vm target, deref vm val) of
        (Some (RObj i), Some r) \<Rightarrow>
          if i < length (objects vm)
          then Some (vm\<lparr>objects := (objects vm)[i := set_member key r (objects vm ! i)]\<rparr>)
          else None
      | _ \<Rightarrow> None)"

text \<open>\<^verbatim>\<open>handle.dispose()\<close>: the handle must be alive, and is not afterwards.\<close>

fun dispose :: "handle \<Rightarrow> vm_state \<Rightarrow> vm_state option" where
  "dispose Global vm = None"
| "dispose (Handle n) vm =
     (if n \<in> set (map fst (handles vm))
      then Some (vm\<lparr>handles := filter (\<lambda>p. fst p \<noteq> n) (handles vm),
                    disposed := Suc (disposed vm)\<rparr>)
      else None)"

text \<open>\<^verbatim>\<open>handle.consume(f)\<close>: run \<^verbatim>\<open>f\<close> on the handle, then dispose it.\<close>

definition consume :: "handle \<Rightarrow> (handle \<Rightarrow> vm_state \<Rightarrow> vm_state option) \<Rightarrow> vm_state \<Rightarrow> vm_state option" where
  "consume h f vm = do { vm' \<leftarrow> f h vm; dispose h vm' }"

text \<open>Reading \<^verbatim>\<open>globalThis.a.b...\<close> in the guest.\<close>

fun lookup_from :: "vm_state \<Rightarrow> gref \<Rightarrow> string list \<Rightarrow> gref option" where
  "lookup_from vm r [] = Some r"
| "lookup_from vm (RObj i) (k # ks) =
     (if i < length (objects vm)
      then (case map_of (objects vm ! i) k of
              None \<Rightarrow> None
            | Some r \<Rightarrow> lookup_from vm r ks)
      else None)"
| "lookup_from vm _ (k # ks) = None"

text \<open>
  \<^verbatim>\<open>vm.evalCode\<close> of the fixed script of the shim,
  \<^verbatim>\<open>globalThis.bru.sendRequest = async (requestConfig, callback) => {...}\<close>: the object
  that the global member \<^verbatim>\<open>bru\<close> refers to gets the member \<^verbatim>\<open>sendRequest\<close>. When there
  is no such object the assignment throws inside the guest, \<^verbatim>\<open>evalCode\<close> returns the
  error as a value, and nothing changes. The shim drops what \<^verbatim>\<open>evalCode\<close> returns; the
  model does not count it among the handles.
\<close>

definition evalCode_sendRequest :: "vm_state \<Rightarrow> vm_state" where
  "evalCode_sendRequest vm =
     (case lookup_from vm (RObj 0) [''bru''] of
        Some (RObj i) \<Rightarrow>
          if i < length (objects vm)
          then vm\<lparr>objects :=
                 (objects vm)[i := set_member ''sendRequest'' (RGuestFn SendRequestShim) (objects vm ! i)]\<rparr>
          else vm
      | _ \<Rightarrow> vm)"

subsection \<open>Building the surface\<close>

text \<open>
  \<^verbatim>\<open>addBruShimToContext\<close>, statement by statement. The host object \<^verbatim>\<open>bru\<close> is only
  used inside the closures, so it is an argument of \<open>host_call\<close> below and not of the
  construction.
\<close>

definition addBruShimToContext :: "vm_state \<Rightarrow> vm_state option" where
  "addBruShimToContext vm0 = do {
     let (bruObject, vm) = newObject vm0;
     let (bruRunnerObject, vm) = newObject vm;

     let (cwd, vm) = newFunction ''cwd'' Cwd vm;
     vm \<leftarrow> setProp bruObject ''cwd'' cwd vm;
     vm \<leftarrow> dispose cwd vm;

     let (getEnvName, vm) = newFunction ''getEnvName'' GetEnvName vm;
     vm \<leftarrow> setProp bruObject ''getEnvName'' getEnvName vm;
     vm \<leftarrow> dispose getEnvName vm;

     let (getCollectionName, vm) = newFunction ''getCollectionName'' GetCollectionName vm;
     vm \<leftarrow> setProp bruObject ''getCollectionName'' getCollectionName vm;
     vm \<leftarrow> dispose getCollectionName vm;

     let (getProcessEnv, vm) = newFunction ''getProcessEnv'' GetProcessEnv vm;
     vm \<leftarrow> setProp bruObject ''getProcessEnv'' getProcessEnv vm;
     vm \<leftarrow> dispose getProcessEnv vm;

     let (interpolate, vm) = newFunction ''interpolate'' Interpolate vm;
     vm \<leftarrow> setProp bruObject ''interpolate'' interpolate vm;
     vm \<leftarrow> dispose interpolate vm;

     let (hasEnvVar, vm) = newFunction ''hasEnvVar'' HasEnvVar vm;
     vm \<leftarrow> setProp bruObject ''hasEnvVar'' hasEnvVar vm;
     vm \<leftarrow> dispose hasEnvVar vm;

     let (getEnvVar, vm) = newFunction ''getEnvVar'' GetEnvVar vm;
     vm \<leftarrow> setProp bruObject ''getEnvVar'' getEnvVar vm;
     vm \<leftarrow> dispose getEnvVar vm;

     let (setEnvVar, vm) = newFunction ''setEnvVar'' SetEnvVar vm;
     vm \<leftarrow> setProp bruObject ''setEnvVar'' setEnvVar vm;
     vm \<leftarrow> dispose setEnvVar vm;

     let (deleteEnvVar, vm) = newFunction ''deleteEnvVar'' DeleteEnvVar vm;
     vm \<leftarrow> setProp bruObject ''deleteEnvVar'' deleteEnvVar vm;
     vm \<leftarrow> dispose deleteEnvVar vm;

     let (getGlobalEnvVar, vm) = newFunction ''getGlobalEnvVar'' GetGlobalEnvVar vm;
     vm \<leftarrow> setProp bruObject ''getGlobalEnvVar'' getGlobalEnvVar vm;
     vm \<leftarrow> dispose getGlobalEnvVar vm;

     let (getOauth2CredentialVar, vm) = newFunction ''getOauth2CredentialVar'' GetOauth2CredentialVar vm;
     vm \<leftarrow> setProp bruObject ''getOauth2CredentialVar'' getOauth2CredentialVar vm;
     vm \<leftarrow> dispose getOauth2CredentialVar vm;

     let (setGlobalEnvVar, vm) = newFunction ''setGlobalEnvVar'' SetGlobalEnvVar vm;
     vm \<leftarrow> setProp bruObject ''setGlobalEnvVar'' setGlobalEnvVar vm;
     vm \<leftarrow> dispose setGlobalEnvVar vm;

     let (hasVar, vm) = newFunction ''hasVar'' HasVar vm;
     vm \<leftarrow> setProp bruObject ''hasVar'' hasVar vm;
     vm \<leftarrow> dispose hasVar vm;

     let (getVar, vm) = newFunction ''getVar'' GetVar vm;
     vm \<leftarrow> setProp bruObject ''getVar'' getVar vm;
     vm \<leftarrow> dispose getVar vm;

     let (setVar, vm) = newFunction ''setVar'' SetVar vm;
     vm \<leftarrow> setProp bruObject ''setVar'' setVar vm;
     vm \<leftarrow> dispose setVar vm;

     let (deleteVar, vm) = newFunction ''deleteVar'' DeleteVar vm;
     vm \<leftarrow> setProp bruObject ''deleteVar'' deleteVar vm;
     vm \<leftarrow> dispose deleteVar vm;

     let (deleteAllVars, vm) = newFunction ''deleteAllVars'' DeleteAllVars vm;
     vm \<leftarrow> setProp bruObject ''deleteAllVars'' deleteAllVars vm;
     vm \<leftarrow> dispose deleteAllVars vm;

     let (setNextRequest, vm) = newFunction ''setNextRequest'' SetNextRequest vm;
     vm \<leftarrow> setProp bruObject ''setNextRequest'' setNextRequest vm;
     vm \<leftarrow> dispose setNextRequest vm;

     let (runnerSkipRequest, vm) = newFunction ''skipRequest'' RunnerSkipRequest vm;
     vm \<leftarrow> setProp bruRunnerObject ''skipRequest'' runnerSkipRequest vm;
     vm \<leftarrow> dispose runnerSkipRequest vm;

     let (runnerStopExecution, vm) = newFunction ''stopExecution'' RunnerStopExecution vm;
     vm \<leftarrow> setProp bruRunnerObject ''stopExecution'' runnerStopExecution vm;
     vm \<leftarrow> dispose runnerStopExecution vm;

     let (runnerSetNextRequest, vm) = newFunction ''setNextRequest'' RunnerSetNextRequest vm;
     vm \<leftarrow> setProp bruRunnerObject ''setNextRequest'' runnerSetNextRequest vm;
     vm \<leftarrow> dispose runnerSetNextRequest vm;

     let (visualize, vm) = newFunction ''visualize'' Visualize vm;
     vm \<leftarrow> setProp bruObject ''visualize'' visualize vm;
     vm \<leftarrow> dispose visualize vm;

     let (getSecretVar, vm) = newFunction ''getSecretVar'' GetSecretVar vm;
     vm \<leftarrow> setProp bruObject ''getSecretVar'' getSecretVar vm;
     vm \<leftarrow> dispose getSecretVar vm;

     let (getRequestVar, vm) = newFunction ''getRequestVar'' GetRequestVar vm;
     vm \<leftarrow> setProp bruObject ''getRequestVar'' getRequestVar vm;
     vm \<leftarrow> dispose getRequestVar vm;

     let (getFolderVar, vm) = newFunction ''getFolderVar'' GetFolderVar vm;
     vm \<leftarrow> setProp bruObject ''getFolderVar'' getFolderVar vm;
     vm \<leftarrow> dispose getFolderVar vm;

     let (getCollectionVar, vm) = newFunction ''getCollectionVar'' GetCollectionVar vm;
     vm \<leftarrow> setProp bruObject ''getCollectionVar'' getCollectionVar vm;
     vm \<leftarrow> dispose getCollectionVar vm;

     let (getTestResults, vm) = newFunction ''getTestResults'' GetTestResults vm;
     vm \<leftarrow> consume getTestResults (\<lambda>handle. setProp bruObject ''getTestResults'' handle) vm;

     let (getAssertionResults, vm) = newFunction ''getAssertionResults'' GetAssertionResults vm;
     vm \<leftarrow> consume getAssertionResults (\<lambda>handle. setProp bruObject ''getAssertionResults'' handle) vm;

     let (runRequestHandle, vm) = newFunction ''runRequest'' RunRequestHandle vm;
     vm \<leftarrow> consume runRequestHandle (\<lambda>handle. setProp bruObject ''runRequest'' handle) vm;

     let (sendRequestHandle, vm) = newFunction ''_sendRequest'' SendRequestHandle vm;
     vm \<leftarrow> consume sendRequestHandle (\<lambda>handle. setProp bruObject ''_sendRequest'' handle) vm;

     let (sleep, vm) = newFunction ''sleep'' Sleep vm;
     vm \<leftarrow> consume sleep (\<lambda>handle. setProp bruObject ''sleep'' handle) vm;

     vm \<leftarrow> setProp bruObject ''runner'' bruRunnerObject vm;
     vm \<leftarrow> setProp Global ''bru'' bruObject vm;
     vm \<leftarrow> dispose bruObject vm;

     Some (evalCode_sendRequest vm)
   }"

definition lookup_path :: "vm_state \<Rightarrow> string list \<Rightarrow> gref option" where
  "lookup_path vm path = lookup_from vm (RObj 0) path"

text \<open>The names of the members of the object at a path, in order.\<close>

definition members_at :: "vm_state \<Rightarrow> string list \<Rightarrow> string list option" where
  "members_at vm path =
     (case lookup_path vm path of
        Some (RObj i) \<Rightarrow> if i < length (objects vm) then Some (map fst (objects vm ! i)) else None
      | _ \<Rightarrow> None)"

section \<open>The host object and the closures\<close>

text \<open>
  What a host function throws, or a host promise is rejected with: any value, or an
  instance of \<^verbatim>\<open>Error\<close>. Of an instance the model keeps the string that \<^verbatim>\<open>err.message\<close>
  reads (a member that is not enumerable, or inherited; the empty string for an
  error made without a message) and the own enumerable members, which are all that
  JSON text shows of it.
\<close>

datatype herr = Plain hval | ErrorInstance string "(string \<times> hval) list"

text \<open>
  A host function returns a value or throws; it may change the state \<open>'s\<close> of the
  host (variables, the signals of the runner). An asynchronous host function
  returns a promise, given here by how it settles: it is fulfilled with a value,
  rejected, or stays pending for ever.
\<close>

datatype hres = Ret hval | Throw herr

datatype ('a, 'e) promise = Fulfilled 'a | Rejected 'e | Pending

type_synonym 's host_op = "hval list \<Rightarrow> 's \<Rightarrow> hres \<times> 's"

type_synonym 's host_async = "hval list \<Rightarrow> 's \<Rightarrow> (hval, herr) promise \<times> 's"

text \<open>
  The argument \<^verbatim>\<open>bru\<close>: an object that has every operation the shim calls on it
  (section 4.2: a provider implementing all supported operations), looked up by
  name as \<^verbatim>\<open>bru.name\<close> is. Its member \<^verbatim>\<open>runner\<close> is read with \<^verbatim>\<open>?.\<close>, so it may be
  missing (\<open>None\<close>), and an operation of the runner may be missing from it. With
  \<^verbatim>\<open>bru\<close> always an object, the first \<^verbatim>\<open>?.\<close> of \<^verbatim>\<open>bru?.runner?.f()\<close> never cuts short.
\<close>

record 's provider =
  ops :: "string \<Rightarrow> 's host_op"
  asyncs :: "string \<Rightarrow> 's host_async"
  runner :: "(string \<Rightarrow> 's host_op option) option"

text \<open>
  What a call of a wrapped function gives the guest: a value, an exception (a
  \<^verbatim>\<open>TypeError\<close> of the host, or what a host function threw), or the handle of a
  promise of the context, given by how that promise settles.
\<close>

datatype herror = TypeError | Thrown herr

datatype wres = WReturn gval | WThrow herror | WPromise "(gval, gval) promise"

text \<open>
  \<^verbatim>\<open>vm.dump(p)\<close> for the \<open>n\<close>-th parameter \<^verbatim>\<open>p\<close> of a closure. The context hands the
  closure one handle for each argument of the call. A parameter beyond the arguments
  of the call is the \<^verbatim>\<open>undefined\<close> of the host, not a handle, and \<^verbatim>\<open>vm.dump\<close> of it
  throws a \<^verbatim>\<open>TypeError\<close> (\<open>None\<close>). An argument that is the \<^verbatim>\<open>undefined\<close> of the guest
  has a handle and is dumped as any value is.
\<close>

definition vm_dump_arg :: "nat \<Rightarrow> gval list \<Rightarrow> hval option" where
  "vm_dump_arg n args = (if n < length args then Some (vm_dump (args ! n)) else None)"

text \<open>
  A closure that dumps its first parameter, or its first and then its second,
  before anything else happens: the \<^verbatim>\<open>TypeError\<close> of a missing argument leaves the
  closure before the host operation is called.
\<close>

definition with_arg :: "gval list \<Rightarrow> 's \<Rightarrow> (hval \<Rightarrow> wres \<times> 's) \<Rightarrow> wres \<times> 's" where
  "with_arg args s k =
     (case vm_dump_arg 0 args of
        None \<Rightarrow> (WThrow TypeError, s)
      | Some a \<Rightarrow> k a)"

definition with_two_args ::
  "gval list \<Rightarrow> 's \<Rightarrow> (hval \<Rightarrow> hval \<Rightarrow> wres \<times> 's) \<Rightarrow> wres \<times> 's" where
  "with_two_args args s k =
     (case vm_dump_arg 0 args of
        None \<Rightarrow> (WThrow TypeError, s)
      | Some a \<Rightarrow>
          (case vm_dump_arg 1 args of
             None \<Rightarrow> (WThrow TypeError, s)
           | Some b \<Rightarrow> k a b))"

text \<open>\<^verbatim>\<open>return marshallToVm(bru.name(...), vm)\<close>\<close>

definition returning :: "'s provider \<Rightarrow> string \<Rightarrow> hval list \<Rightarrow> 's \<Rightarrow> wres \<times> 's" where
  "returning bru name hargs s =
     (case ops bru name hargs s of
        (Ret v, s') \<Rightarrow> (WReturn (marshallToVm v), s')
      | (Throw e, s') \<Rightarrow> (WThrow (Thrown e), s'))"

text \<open>
  A call for its effect, \<^verbatim>\<open>f(...);\<close> with no \<^verbatim>\<open>return\<close>: what \<^verbatim>\<open>f\<close> returns is
  dropped and the guest gets \<^verbatim>\<open>undefined\<close>; what \<^verbatim>\<open>f\<close> throws passes on.
\<close>

definition call_for_effect :: "'s host_op \<Rightarrow> hval list \<Rightarrow> 's \<Rightarrow> wres \<times> 's" where
  "call_for_effect f hargs s =
     (case f hargs s of
        (Ret v, s') \<Rightarrow> (WReturn GUndefined, s')
      | (Throw e, s') \<Rightarrow> (WThrow (Thrown e), s'))"

text \<open>\<^verbatim>\<open>bru.name(...);\<close>\<close>

definition discarding :: "'s provider \<Rightarrow> string \<Rightarrow> hval list \<Rightarrow> 's \<Rightarrow> wres \<times> 's" where
  "discarding bru name hargs s = call_for_effect (ops bru name) hargs s"

text \<open>
  \<^verbatim>\<open>bru?.runner?.name(...);\<close>: a missing \<^verbatim>\<open>runner\<close> cuts the whole chain short, the
  arguments and the call included. Otherwise the arguments are evaluated (\<open>None\<close>
  when that throws, as \<^verbatim>\<open>vm.dump\<close> of a missing argument does) and the call is made.
  The call itself is not optional (it is not \<^verbatim>\<open>name?.(...)\<close>): when the runner has no
  such member, calling \<^verbatim>\<open>undefined\<close> is a \<^verbatim>\<open>TypeError\<close>.
\<close>

definition runner_call ::
  "'s provider \<Rightarrow> string \<Rightarrow> hval list option \<Rightarrow> 's \<Rightarrow> wres \<times> 's" where
  "runner_call bru name hargs s =
     (case runner bru of
        None \<Rightarrow> (WReturn GUndefined, s)
      | Some r \<Rightarrow>
          (case hargs of
             None \<Rightarrow> (WThrow TypeError, s)
           | Some as \<Rightarrow>
               (case r name of
                  None \<Rightarrow> (WThrow TypeError, s)
                | Some f \<Rightarrow> call_for_effect f as s)))"

text \<open>
  \<^verbatim>\<open>err.message\<close> on the host: reading a member of \<^verbatim>\<open>undefined\<close> or \<^verbatim>\<open>null\<close> throws
  (\<open>None\<close>); an instance of \<^verbatim>\<open>Error\<close> gives its message; a plain object gives the
  member or \<^verbatim>\<open>undefined\<close>; the other values of \<open>hval\<close> have no such member.
\<close>

fun message_of :: "herr \<Rightarrow> hval option" where
  "message_of (ErrorInstance m ps) = Some (HStr m)"
| "message_of (Plain HUndefined) = None"
| "message_of (Plain HNull) = None"
| "message_of (Plain (HObj ps)) =
     Some (case map_of ps ''message'' of None \<Rightarrow> HUndefined | Some m \<Rightarrow> m)"
| "message_of (Plain v) = Some HUndefined"

text \<open>
  Modelled from the spec: \<^verbatim>\<open>cleanJson(err)\<close> for what a promise was rejected with.
  Section 4.1 names rich error objects among the values the copy is made for. JSON
  text has the own enumerable members of an object only, so the copy of an instance
  of \<^verbatim>\<open>Error\<close> is the copy of those members, and its message is not among them.
\<close>

definition cleanJson_error :: "herr \<Rightarrow> hval" where
  "cleanJson_error err =
     (case err of
        Plain v \<Rightarrow> cleanJson v
      | ErrorInstance m ps \<Rightarrow> cleanJson (HObj ps))"

text \<open>
  The three wrappers with
  \<^verbatim>\<open>.then((r) => promise.resolve(marshallToVm(clean(r), vm)))\<close> and
  \<^verbatim>\<open>.catch((err) => promise.resolve(marshallToVm(cleanJson({message: err.message}), vm)))\<close>:
  both handlers resolve. When reading \<^verbatim>\<open>err.message\<close> throws, the handler ends
  before it settles the promise of the context, which then stays pending.
\<close>

definition settle_resolving :: "(hval \<Rightarrow> hval) \<Rightarrow> (hval, herr) promise \<Rightarrow> (gval, gval) promise" where
  "settle_resolving clean p =
     (case p of
        Fulfilled r \<Rightarrow> Fulfilled (marshallToVm (clean r))
      | Rejected err \<Rightarrow>
          (case message_of err of
             None \<Rightarrow> Pending
           | Some m \<Rightarrow> Fulfilled (marshallToVm (cleanJson (HObj [(''message'', m)]))))
      | Pending \<Rightarrow> Pending)"

text \<open>
  \<^verbatim>\<open>_sendRequest\<close>:
  \<^verbatim>\<open>.then((response) => promise.resolve(marshallToVm(cleanCircularJson(response), vm)))\<close>
  and \<^verbatim>\<open>.catch((err) => promise.reject(marshallToVm(cleanJson(err), vm)))\<close>.
\<close>

definition settle_sendRequest :: "(hval, herr) promise \<Rightarrow> (gval, gval) promise" where
  "settle_sendRequest p =
     (case p of
        Fulfilled response \<Rightarrow> Fulfilled (marshallToVm (cleanCircularJson response))
      | Rejected err \<Rightarrow> Rejected (marshallToVm (cleanJson_error err))
      | Pending \<Rightarrow> Pending)"

text \<open>
  The promise each asynchronous closure returns, once its arguments are dumped.
  \<^verbatim>\<open>getTestResults\<close> and \<^verbatim>\<open>getAssertionResults\<close> take no parameter; \<^verbatim>\<open>runRequest\<close> and
  \<^verbatim>\<open>_sendRequest\<close> pass \<^verbatim>\<open>vm.dump(args)\<close> to the host.
\<close>

definition getTestResults_promise :: "'s provider \<Rightarrow> 's \<Rightarrow> (gval, gval) promise \<times> 's" where
  "getTestResults_promise bru s =
     (case asyncs bru ''getTestResults'' [] s of (p, s') \<Rightarrow> (settle_resolving cleanJson p, s'))"

definition getAssertionResults_promise :: "'s provider \<Rightarrow> 's \<Rightarrow> (gval, gval) promise \<times> 's" where
  "getAssertionResults_promise bru s =
     (case asyncs bru ''getAssertionResults'' [] s of (p, s') \<Rightarrow> (settle_resolving cleanJson p, s'))"

definition runRequest_promise :: "'s provider \<Rightarrow> hval \<Rightarrow> 's \<Rightarrow> (gval, gval) promise \<times> 's" where
  "runRequest_promise bru a s =
     (case asyncs bru ''runRequest'' [a] s of
        (p, s') \<Rightarrow> (settle_resolving cleanCircularJson p, s'))"

definition sendRequest_promise :: "'s provider \<Rightarrow> hval \<Rightarrow> 's \<Rightarrow> (gval, gval) promise \<times> 's" where
  "sendRequest_promise bru a s =
     (case asyncs bru ''sendRequest'' [a] s of
        (p, s') \<Rightarrow> (settle_sendRequest p, s'))"

text \<open>
  Each of the five wrappers returns \<^verbatim>\<open>promise.handle\<close> after registering
  \<^verbatim>\<open>promise.settled.then(vm.runtime.executePendingJobs)\<close>, which lets the guest run its
  continuations once the promise has settled. The model gives how the promise
  settles; the scheduling of the jobs of the host and of the guest is not part of it.
\<close>

definition as_promise :: "(gval, gval) promise \<times> 's \<Rightarrow> wres \<times> 's" where
  "as_promise r = (case r of (p, s') \<Rightarrow> (WPromise p, s'))"

text \<open>
  \<^verbatim>\<open>sleep\<close>: \<^verbatim>\<open>vm.getString(timer)\<close> first, which throws a \<^verbatim>\<open>TypeError\<close> when the call
  has no argument; then the timer resolves the promise with the string \<^verbatim>\<open>'slept'\<close>.
  The delay itself is not part of the model.
\<close>

definition sleep_call :: "gval list \<Rightarrow> 's \<Rightarrow> wres \<times> 's" where
  "sleep_call args s =
     (case args of
        [] \<Rightarrow> (WThrow TypeError, s)
      | timer # rest \<Rightarrow> (WPromise (Fulfilled (GStr ''slept'')), s))"

text \<open>The body of each closure, in the order of the shim.\<close>

fun host_call :: "host_fn \<Rightarrow> 's provider \<Rightarrow> gval list \<Rightarrow> 's \<Rightarrow> wres \<times> 's" where
  "host_call Cwd bru args s = returning bru ''cwd'' [] s"
| "host_call GetEnvName bru args s = returning bru ''getEnvName'' [] s"
| "host_call GetCollectionName bru args s = returning bru ''getCollectionName'' [] s"
| "host_call GetProcessEnv bru args s =
     with_arg args s (\<lambda>key. returning bru ''getProcessEnv'' [key] s)"
| "host_call Interpolate bru args s =
     with_arg args s (\<lambda>str. returning bru ''interpolate'' [str] s)"
| "host_call HasEnvVar bru args s =
     with_arg args s (\<lambda>key. returning bru ''hasEnvVar'' [key] s)"
| "host_call GetEnvVar bru args s =
     with_arg args s (\<lambda>key. returning bru ''getEnvVar'' [key] s)"
| "host_call SetEnvVar bru args s =
     with_two_args args s (\<lambda>key val. discarding bru ''setEnvVar'' [key, val] s)"
| "host_call DeleteEnvVar bru args s =
     with_arg args s (\<lambda>key. returning bru ''deleteEnvVar'' [key] s)"
| "host_call GetGlobalEnvVar bru args s =
     with_arg args s (\<lambda>key. returning bru ''getGlobalEnvVar'' [key] s)"
| "host_call GetOauth2CredentialVar bru args s =
     with_arg args s (\<lambda>key. returning bru ''getOauth2CredentialVar'' [key] s)"
| "host_call SetGlobalEnvVar bru args s =
     with_two_args args s (\<lambda>key val. discarding bru ''setGlobalEnvVar'' [key, val] s)"
| "host_call HasVar bru args s =
     with_arg args s (\<lambda>key. returning bru ''hasVar'' [key] s)"
| "host_call GetVar bru args s =
     with_arg args s (\<lambda>key. returning bru ''getVar'' [key] s)"
| "host_call SetVar bru args s =
     with_two_args args s (\<lambda>key val. discarding bru ''setVar'' [key, val] s)"
| "host_call DeleteVar bru args s =
     with_arg args s (\<lambda>key. discarding bru ''deleteVar'' [key] s)"
| "host_call DeleteAllVars bru args s = discarding bru ''deleteAllVars'' [] s"
| "host_call SetNextRequest bru args s =
     with_arg args s (\<lambda>nextRequest. discarding bru ''setNextRequest'' [nextRequest] s)"
| "host_call RunnerSkipRequest bru args s = runner_call bru ''skipRequest'' (Some []) s"
| "host_call RunnerStopExecution bru args s = runner_call bru ''stopExecution'' (Some []) s"
| "host_call RunnerSetNextRequest bru args s =
     runner_call bru ''setNextRequest'' (map_option (\<lambda>a. [a]) (vm_dump_arg 0 args)) s"
| "host_call Visualize bru args s =
     with_arg args s (\<lambda>htmlString. discarding bru ''visualize'' [htmlString] s)"
| "host_call GetSecretVar bru args s =
     with_arg args s (\<lambda>key. returning bru ''getSecretVar'' [key] s)"
| "host_call GetRequestVar bru args s =
     with_arg args s (\<lambda>key. returning bru ''getRequestVar'' [key] s)"
| "host_call GetFolderVar bru args s =
     with_arg args s (\<lambda>key. returning bru ''getFolderVar'' [key] s)"
| "host_call GetCollectionVar bru args s =
     with_arg args s (\<lambda>key. returning bru ''getCollectionVar'' [key] s)"
| "host_call GetTestResults bru args s = as_promise (getTestResults_promise bru s)"
| "host_call GetAssertionResults bru args s = as_promise (getAssertionResults_promise bru s)"
| "host_call RunRequestHandle bru args s =
     with_arg args s (\<lambda>a. as_promise (runRequest_promise bru a s))"
| "host_call SendRequestHandle bru args s =
     with_arg args s (\<lambda>a. as_promise (sendRequest_promise bru a s))"
| "host_call Sleep bru args s = sleep_call args s"

text \<open>
  A call from the guest of the function at a path of the surface. \<open>None\<close>: the path
  does not lead to a function made by \<^verbatim>\<open>vm.newFunction\<close>.
\<close>

definition guest_call ::
  "vm_state \<Rightarrow> 's provider \<Rightarrow> string list \<Rightarrow> gval list \<Rightarrow> 's \<Rightarrow> (wres \<times> 's) option" where
  "guest_call vm bru path args s =
     (case lookup_path vm path of
        Some (RHostFn name fn) \<Rightarrow> Some (host_call fn bru args s)
      | _ \<Rightarrow> None)"

section \<open>The script that defines \<^verbatim>\<open>bru.sendRequest\<close>\<close>

text \<open>
  What the guest throws or rejects a promise with: a value, or an error object that
  the engine itself makes (\<^verbatim>\<open>TypeError\<close> for a call of something that is not a
  function, \<^verbatim>\<open>SyntaxError\<close> from \<^verbatim>\<open>JSON.parse\<close>).
\<close>

datatype gexn = GValue gval | GTypeError | GSyntaxError

text \<open>
  \<^verbatim>\<open>await callback(...)\<close> ends in one of three ways: the callback returns (or the
  promise it returns is fulfilled), it throws (or that promise is rejected), or
  that promise stays pending.
\<close>

datatype cb_result = CbDone | CbRaise gexn | CbNever

text \<open>
  The second argument of \<^verbatim>\<open>bru.sendRequest\<close>: a function, given by what a call of it
  does, or any other value (\<^verbatim>\<open>undefined\<close> when the argument is left out).
\<close>

datatype callback = NotCallable gval | Callable "gval \<Rightarrow> gval \<Rightarrow> cb_result"

fun js_truthy :: "gval \<Rightarrow> bool" where
  "js_truthy GUndefined = False"
| "js_truthy GNull = False"
| "js_truthy (GBool b) = b"
| "js_truthy (GNum n) = (n \<noteq> 0)"
| "js_truthy (GStr s) = (s \<noteq> [])"
| "js_truthy (GArr xs) = True"
| "js_truthy (GObj ps) = True"

fun truthy :: "callback \<Rightarrow> bool" where
  "truthy (NotCallable v) = js_truthy v"
| "truthy (Callable f) = True"

text \<open>
  \<^verbatim>\<open>JSON.parse(JSON.stringify(error))\<close> in the guest. \<^verbatim>\<open>JSON.stringify(undefined)\<close> is
  \<^verbatim>\<open>undefined\<close>, which \<^verbatim>\<open>JSON.parse\<close> rejects with a \<^verbatim>\<open>SyntaxError\<close> (\<open>None\<close>). Inside
  an object a member that is \<^verbatim>\<open>undefined\<close> is left out, inside an array it becomes
  \<^verbatim>\<open>null\<close>.
\<close>

primrec guest_json_copy :: "gval \<Rightarrow> gval option" where
  "guest_json_copy GUndefined = None"
| "guest_json_copy GNull = Some GNull"
| "guest_json_copy (GBool b) = Some (GBool b)"
| "guest_json_copy (GNum n) = Some (GNum n)"
| "guest_json_copy (GStr s) = Some (GStr s)"
| "guest_json_copy (GArr xs) =
     Some (GArr (map (\<lambda>c. case c of None \<Rightarrow> GNull | Some v \<Rightarrow> v) (map guest_json_copy xs)))"
| "guest_json_copy (GObj ps) =
     Some (GObj (List.map_filter (\<lambda>(k, c). map_option (Pair k) c)
                   (map (map_prod id guest_json_copy) ps)))"

text \<open>
  The result of one call of \<^verbatim>\<open>bru.sendRequest\<close>: how the promise it returns settles,
  and the calls of the callback it made, each with its two arguments.
\<close>

record shim_result =
  outcome :: "(gval, gexn) promise"
  calls :: "(gval \<times> gval) list"

text \<open>
  \<^verbatim>\<open>await callback(a, b)\<close>: calling a value that is not a function throws a
  \<^verbatim>\<open>TypeError\<close> and calls nothing.
\<close>

definition await_callback :: "callback \<Rightarrow> gval \<Rightarrow> gval \<Rightarrow> cb_result \<times> (gval \<times> gval) list" where
  "await_callback callback a b =
     (case callback of
        NotCallable v \<Rightarrow> (CbRaise GTypeError, [])
      | Callable f \<Rightarrow> (f a b, [(a, b)]))"

text \<open>
  The body of the async function, given how the promise of
  \<^verbatim>\<open>globalThis.bru._sendRequest(requestConfig)\<close> settles.
  \<^verbatim>\<open>
  if (!callback) return await globalThis.bru._sendRequest(requestConfig);
  try {
    const response = await globalThis.bru._sendRequest(requestConfig);
    try { await callback(null, response); }
    catch(error) { return Promise.reject(error); }
  }
  catch(error) {
    try { await callback(JSON.parse(JSON.stringify(error)), null); }
    catch(err) { return Promise.reject(err); }
  }
  \<close>
  A \<^verbatim>\<open>return Promise.reject(error)\<close> inside the outer \<^verbatim>\<open>try\<close> is not awaited there, so
  the outer \<^verbatim>\<open>catch\<close> does not see it. A function that ends without \<^verbatim>\<open>return\<close>
  fulfils its promise with \<^verbatim>\<open>undefined\<close>.
\<close>

definition sendRequest_shim :: "(gval, gval) promise \<Rightarrow> callback \<Rightarrow> shim_result" where
  "sendRequest_shim raw callback =
     (if \<not> truthy callback then
        (case raw of
           Fulfilled response \<Rightarrow> \<lparr>outcome = Fulfilled response, calls = []\<rparr>
         | Rejected error \<Rightarrow> \<lparr>outcome = Rejected (GValue error), calls = []\<rparr>
         | Pending \<Rightarrow> \<lparr>outcome = Pending, calls = []\<rparr>)
      else
        (case raw of
           Fulfilled response \<Rightarrow>
             (case await_callback callback GNull response of
                (CbDone, cs) \<Rightarrow> \<lparr>outcome = Fulfilled GUndefined, calls = cs\<rparr>
              | (CbRaise error, cs) \<Rightarrow> \<lparr>outcome = Rejected error, calls = cs\<rparr>
              | (CbNever, cs) \<Rightarrow> \<lparr>outcome = Pending, calls = cs\<rparr>)
         | Rejected error \<Rightarrow>
             (case guest_json_copy error of
                None \<Rightarrow> \<lparr>outcome = Rejected GSyntaxError, calls = []\<rparr>
              | Some normalized \<Rightarrow>
                  (case await_callback callback normalized GNull of
                     (CbDone, cs) \<Rightarrow> \<lparr>outcome = Fulfilled GUndefined, calls = cs\<rparr>
                   | (CbRaise err, cs) \<Rightarrow> \<lparr>outcome = Rejected err, calls = cs\<rparr>
                   | (CbNever, cs) \<Rightarrow> \<lparr>outcome = Pending, calls = cs\<rparr>))
         | Pending \<Rightarrow> \<lparr>outcome = Pending, calls = []\<rparr>))"

text \<open>
  \<^verbatim>\<open>bru.sendRequest(requestConfig, callback)\<close> as the guest calls it: on either path
  of the script one call \<^verbatim>\<open>globalThis.bru._sendRequest(requestConfig)\<close>, then the body
  above. That call always has its one argument, so the closure dumps it: a
  \<^verbatim>\<open>requestConfig\<close> left out by the script is the \<^verbatim>\<open>undefined\<close> of the guest.
\<close>

definition bru_sendRequest ::
  "'s provider \<Rightarrow> gval \<Rightarrow> callback \<Rightarrow> 's \<Rightarrow> shim_result \<times> 's" where
  "bru_sendRequest bru requestConfig callback s =
     (case sendRequest_promise bru (vm_dump requestConfig) s of
        (raw, s') \<Rightarrow> (sendRequest_shim raw callback, s'))"

section \<open>A session on a fresh context\<close>

text \<open>
  The surface is built once, on a context with nothing but the global object;
  the script then reads the members of \<^verbatim>\<open>globalThis.bru\<close> and calls them.
\<close>

definition surface_lookup :: "string list \<Rightarrow> gref option" where
  "surface_lookup path = do { vm \<leftarrow> addBruShimToContext fresh_vm; lookup_path vm path }"

definition surface_call ::
  "'s provider \<Rightarrow> string list \<Rightarrow> gval list \<Rightarrow> 's \<Rightarrow> (wres \<times> 's) option" where
  "surface_call bru path args s =
     do { vm \<leftarrow> addBruShimToContext fresh_vm; guest_call vm bru path args s }"

definition surface_members :: "string list \<Rightarrow> string list option" where
  "surface_members path = do { vm \<leftarrow> addBruShimToContext fresh_vm; members_at vm path }"

section \<open>Observations used in the statements\<close>

text \<open>The \<^verbatim>\<open>message\<close> member of a guest object, when it is a string that is not empty.\<close>

fun has_message :: "gval \<Rightarrow> bool" where
  "has_message (GObj ps) =
     (case map_of ps ''message'' of Some (GStr m) \<Rightarrow> m \<noteq> [] | _ \<Rightarrow> False)"
| "has_message _ = False"


text \<open>
  Host objects for the examples. The host state is the list of the signals the
  runner has received. \<open>runner_ops\<close> has the three operations of a runner, each
  recording its name.
\<close>

definition signal :: "string \<Rightarrow> string list host_op" where
  "signal name hargs s = (Ret HUndefined, s @ [name])"

definition runner_ops :: "string \<Rightarrow> string list host_op option" where
  "runner_ops name =
     (if name \<in> set [''skipRequest'', ''stopExecution'', ''setNextRequest'']
      then Some (signal (''runner.'' @ name)) else None)"

text \<open>
  \<open>example_bru p r\<close>: every operation records its name, every asynchronous operation
  settles as \<open>p\<close>, and the runner is \<open>r\<close>.
\<close>

definition example_bru ::
  "(hval, herr) promise \<Rightarrow> (string \<Rightarrow> string list host_op option) option \<Rightarrow> string list provider" where
  "example_bru p r = \<lparr>ops = signal, asyncs = (\<lambda>name hargs s. (p, s)), runner = r\<rparr>"

text \<open>
  Callbacks for the examples: one that accepts a response and throws the error it is
  given, and one that always throws.
\<close>

definition rethrowing_callback :: "gval \<Rightarrow> gval \<Rightarrow> cb_result" where
  "rethrowing_callback e r = (if e = GNull then CbDone else CbRaise (GValue e))"

definition failing_callback :: "gval \<Rightarrow> gval \<Rightarrow> cb_result" where
  "failing_callback e r = CbRaise (GValue (GStr ''bad callback''))"

text \<open>
  A host object that keeps the runtime variables in its state: \<^verbatim>\<open>setVar(key, value)\<close>
  puts a binding in front, \<^verbatim>\<open>getVar(key)\<close> reads the first binding of the key.
\<close>

definition var_store_bru :: "(string \<times> hval) list provider" where
  "var_store_bru =
     \<lparr>ops = (\<lambda>name hargs vars.
        if name = ''getVar'' then
          (case hargs of
             [HStr k] \<Rightarrow> (Ret (case map_of vars k of None \<Rightarrow> HUndefined | Some v \<Rightarrow> v), vars)
           | _ \<Rightarrow> (Ret HUndefined, vars))
        else if name = ''setVar'' then
          (case hargs of
             [HStr k, v] \<Rightarrow> (Ret HUndefined, (k, v) # vars)
           | _ \<Rightarrow>
               (Throw (ErrorInstance ''Creating a variable without specifying a name is not allowed.'' []),
                vars))
        else (Ret HUndefined, vars)),
      asyncs = (\<lambda>name hargs vars. (Pending, vars)),
      runner = None\<rparr>"

section \<open>Facts about the codec\<close>

lemma vm_dump_marshallToVm: "vm_dump (marshallToVm v) = v"
  by (induction v) (auto simp: list.map_comp prod.map_comp comp_def map_idI prod.map_ident
      intro!: map_idI)

lemma copy_members_id:
  "\<forall>p \<in> set ps. f (snd p) = Some (snd p) \<Longrightarrow>
   List.map_filter (\<lambda>(k, c). map_option (Pair k) c) (map (map_prod id f) ps) = ps"
  by (induction ps) auto

lemma copy_elements_id:
  "(\<And>x. x \<in> set xs \<Longrightarrow> f x = Some x) \<Longrightarrow>
   map ((\<lambda>c. case c of None \<Rightarrow> d | Some v \<Rightarrow> v) \<circ> f) xs = xs"
  by (induction xs) auto


text \<open>The copy leaves a JSON-safe value as it is, and what it returns is JSON-safe.\<close>

lemma json_copy_safe: "json_safe v \<Longrightarrow> json_copy v = Some v"
proof (induction v)
  case (HArr xs)
  then have "\<And>x. x \<in> set xs \<Longrightarrow> json_copy x = Some x"
    by (simp add: list_all_iff)
  then show ?case by (simp add: copy_elements_id)
next
  case (HObj ps)
  then have "\<forall>p \<in> set ps. json_copy (snd p) = Some (snd p)"
    by (fastforce simp: list_all_iff)
  then show ?case by (simp add: copy_members_id)
qed simp_all

lemma cleanJson_safe: "json_safe v \<Longrightarrow> cleanJson v = v"
  by (simp add: cleanJson_def json_copy_safe)






section \<open>Facts about the surface\<close>

text \<open>What the script finds at the paths of the run-control and request operations.\<close>

lemma surface_paths:
  "map_option
     (\<lambda>vm. map (lookup_path vm)
        [[''bru'', ''setNextRequest''], [''bru'', ''skipRequest''], [''bru'', ''stopExecution''],
         [''bru'', ''runner'', ''skipRequest''], [''bru'', ''runner'', ''stopExecution''],
         [''bru'', ''runner'', ''setNextRequest''], [''bru'', ''_sendRequest''],
         [''bru'', ''sendRequest'']])
     (addBruShimToContext fresh_vm)
   = Some [Some (RHostFn ''setNextRequest'' SetNextRequest), None, None,
           Some (RHostFn ''skipRequest'' RunnerSkipRequest),
           Some (RHostFn ''stopExecution'' RunnerStopExecution),
           Some (RHostFn ''setNextRequest'' RunnerSetNextRequest),
           Some (RHostFn ''_sendRequest'' SendRequestHandle),
           Some (RGuestFn SendRequestShim)]"
  by code_simp

lemma surface_lookup_at:
  "surface_lookup [''bru'', ''setNextRequest''] = Some (RHostFn ''setNextRequest'' SetNextRequest)"
  "surface_lookup [''bru'', ''skipRequest''] = None"
  "surface_lookup [''bru'', ''stopExecution''] = None"
  "surface_lookup [''bru'', ''runner'', ''skipRequest''] = Some (RHostFn ''skipRequest'' RunnerSkipRequest)"
  "surface_lookup [''bru'', ''runner'', ''stopExecution''] = Some (RHostFn ''stopExecution'' RunnerStopExecution)"
  "surface_lookup [''bru'', ''runner'', ''setNextRequest''] = Some (RHostFn ''setNextRequest'' RunnerSetNextRequest)"
  "surface_lookup [''bru'', ''_sendRequest''] = Some (RHostFn ''_sendRequest'' SendRequestHandle)"
  "surface_lookup [''bru'', ''sendRequest''] = Some (RGuestFn SendRequestShim)"
  using surface_paths by (auto simp: surface_lookup_def)

lemma surface_members_at:
  "surface_members [''bru'', ''runner''] = Some [''skipRequest'', ''stopExecution'', ''setNextRequest'']"
  by code_simp

lemma surface_call_eq:
  "surface_call bru path args s =
     (case surface_lookup path of
        Some (RHostFn name fn) \<Rightarrow> Some (host_call fn bru args s)
      | _ \<Rightarrow> None)"
  by (cases "addBruShimToContext fresh_vm")
     (simp_all add: surface_call_def surface_lookup_def guest_call_def)

section \<open>Facts about the request wrapper and the script\<close>

text \<open>How the promise of \<^verbatim>\<open>_sendRequest\<close> settles, from how the host promise does.\<close>

lemma sendRequest_promise_fulfilled:
  "asyncs bru ''sendRequest'' [vm_dump cfg] s = (Fulfilled response, s') \<Longrightarrow>
   sendRequest_promise bru (vm_dump cfg) s
     = (Fulfilled (marshallToVm (cleanCircularJson response)), s')"
  by (simp add: sendRequest_promise_def settle_sendRequest_def)

lemma sendRequest_promise_rejected:
  "asyncs bru ''sendRequest'' [vm_dump cfg] s = (Rejected err, s') \<Longrightarrow>
   sendRequest_promise bru (vm_dump cfg) s = (Rejected (marshallToVm (cleanJson_error err)), s')"
  by (simp add: sendRequest_promise_def settle_sendRequest_def)


lemma shim_on_success:
  "sendRequest_shim (Fulfilled r) (Callable cb) =
     \<lparr>outcome = (case cb GNull r of
                   CbDone \<Rightarrow> Fulfilled GUndefined
                 | CbRaise x \<Rightarrow> Rejected x
                 | CbNever \<Rightarrow> Pending),
      calls = [(GNull, r)]\<rparr>"
  by (simp add: sendRequest_shim_def await_callback_def split: cb_result.splits)

lemma shim_on_failure:
  "guest_json_copy e = Some normalized \<Longrightarrow>
   sendRequest_shim (Rejected e) (Callable cb) =
     \<lparr>outcome = (case cb normalized GNull of
                   CbDone \<Rightarrow> Fulfilled GUndefined
                 | CbRaise x \<Rightarrow> Rejected x
                 | CbNever \<Rightarrow> Pending),
      calls = [(normalized, GNull)]\<rparr>"
  by (simp add: sendRequest_shim_def await_callback_def split: cb_result.splits)

lemmas promise_defs = getTestResults_promise_def getAssertionResults_promise_def
  runRequest_promise_def sendRequest_promise_def settle_resolving_def settle_sendRequest_def
  as_promise_def

text \<open>A closure whose call has a first argument dumps it and goes on.\<close>

lemma with_arg_Cons: "with_arg (x # rest) s k = k (vm_dump x)"
  by (simp add: with_arg_def vm_dump_arg_def)

lemma with_two_args_Cons: "with_two_args (x # y # rest) s k = k (vm_dump x) (vm_dump y)"
  by (simp add: with_two_args_def vm_dump_arg_def)

lemma vm_dump_arg_Cons: "vm_dump_arg 0 (x # rest) = Some (vm_dump x)"
  by (simp add: vm_dump_arg_def)

section \<open>The calling convention of \<^verbatim>\<open>bru.sendRequest\<close>\<close>




text \<open>
  C7. With a callback, the script awaits the request and calls the callback once,
  error first; when the callback throws (or the promise it returns is rejected) on
  the success branch or on the failure branch, the promise of \<^verbatim>\<open>bru.sendRequest\<close> is
  rejected with what the callback threw.
\<close>

theorem callback_error_rejects:
  "(asyncs bru ''sendRequest'' [vm_dump cfg] s = (Fulfilled response, s') \<longrightarrow>
      cb GNull (marshallToVm (cleanCircularJson response)) = CbRaise x \<longrightarrow>
      bru_sendRequest bru cfg (Callable cb) s
        = (\<lparr>outcome = Rejected x,
             calls = [(GNull, marshallToVm (cleanCircularJson response))]\<rparr>, s')) \<and>
   (asyncs bru ''sendRequest'' [vm_dump cfg] s = (Rejected err, s') \<longrightarrow>
      guest_json_copy (marshallToVm (cleanJson_error err)) = Some normalized \<longrightarrow>
      cb normalized GNull = CbRaise x \<longrightarrow>
      bru_sendRequest bru cfg (Callable cb) s
        = (\<lparr>outcome = Rejected x, calls = [(normalized, GNull)]\<rparr>, s'))"
proof (intro conjI impI)
  assume "asyncs bru ''sendRequest'' [vm_dump cfg] s = (Fulfilled response, s')"
    and "cb GNull (marshallToVm (cleanCircularJson response)) = CbRaise x"
  then show "bru_sendRequest bru cfg (Callable cb) s
        = (\<lparr>outcome = Rejected x,
             calls = [(GNull, marshallToVm (cleanCircularJson response))]\<rparr>, s')"
    by (simp add: bru_sendRequest_def sendRequest_promise_fulfilled shim_on_success)
next
  assume "asyncs bru ''sendRequest'' [vm_dump cfg] s = (Rejected err, s')"
    and "guest_json_copy (marshallToVm (cleanJson_error err)) = Some normalized"
    and "cb normalized GNull = CbRaise x"
  then show "bru_sendRequest bru cfg (Callable cb) s
        = (\<lparr>outcome = Rejected x, calls = [(normalized, GNull)]\<rparr>, s')"
    by (simp add: bru_sendRequest_def sendRequest_promise_rejected shim_on_failure)
qed

theorem callback_error_rejects_witness:
  "asyncs (example_bru (Fulfilled (HStr ''pong'')) None) ''sendRequest'' [vm_dump GNull] []
     = (Fulfilled (HStr ''pong''), []) \<and>
   failing_callback GNull (marshallToVm (cleanCircularJson (HStr ''pong'')))
     = CbRaise (GValue (GStr ''bad callback'')) \<and>
   bru_sendRequest (example_bru (Fulfilled (HStr ''pong'')) None) GNull
       (Callable failing_callback) []
     = (\<lparr>outcome = Rejected (GValue (GStr ''bad callback'')),
          calls = [(GNull, GStr ''pong'')]\<rparr>, []) \<and>
   asyncs (example_bru (Rejected (Plain (HStr ''refused''))) None) ''sendRequest'' [vm_dump GNull] []
     = (Rejected (Plain (HStr ''refused'')), []) \<and>
   guest_json_copy (marshallToVm (cleanJson_error (Plain (HStr ''refused'')))) = Some (GStr ''refused'') \<and>
   bru_sendRequest (example_bru (Rejected (Plain (HStr ''refused''))) None) GNull
       (Callable failing_callback) []
     = (\<lparr>outcome = Rejected (GValue (GStr ''bad callback'')),
          calls = [(GStr ''refused'', GNull)]\<rparr>, [])"
proof -
  have ok: "asyncs (example_bru (Fulfilled (HStr ''pong'')) None) ''sendRequest'' [vm_dump GNull] []
     = (Fulfilled (HStr ''pong''), [])"
    by (simp add: example_bru_def)
  have ko: "asyncs (example_bru (Rejected (Plain (HStr ''refused''))) None) ''sendRequest'' [vm_dump GNull] []
     = (Rejected (Plain (HStr ''refused'')), [])"
    by (simp add: example_bru_def)
  have norm: "guest_json_copy (marshallToVm (cleanJson_error (Plain (HStr ''refused''))))
      = Some (GStr ''refused'')"
    by (simp add: cleanJson_error_def cleanJson_def)
  have clean: "marshallToVm (cleanCircularJson (HStr ''pong'')) = GStr ''pong''"
    by (simp add: cleanJson_def cleanCircularJson_def)
  have throws: "failing_callback e r = CbRaise (GValue (GStr ''bad callback''))" for e r
    by (simp add: failing_callback_def)
  from callback_error_rejects
      [where bru = "example_bru (Fulfilled (HStr ''pong'')) None" and cfg = GNull
        and s = "[]" and s' = "[]" and response = "HStr ''pong''"
        and cb = failing_callback
        and x = "GValue (GStr ''bad callback'')"]
    callback_error_rejects
      [where bru = "example_bru (Rejected (Plain (HStr ''refused''))) None" and cfg = GNull
        and s = "[]" and s' = "[]" and err = "Plain (HStr ''refused'')"
        and cb = failing_callback
        and x = "GValue (GStr ''bad callback'')" and normalized = "GStr ''refused''"]
    ok ko norm throws
  show ?thesis by (simp add: clean)
qed

text \<open>
  C9. With a callback, when the host dispatch succeeds and the callback completes,
  the promise of \<^verbatim>\<open>bru.sendRequest\<close> is fulfilled with \<^verbatim>\<open>undefined\<close>: the response goes
  to the callback only.
\<close>

theorem callback_call_resolves_undefined:
  "asyncs bru ''sendRequest'' [vm_dump cfg] s = (Fulfilled response, s') \<Longrightarrow>
   cb GNull (marshallToVm (cleanCircularJson response)) = CbDone \<Longrightarrow>
   bru_sendRequest bru cfg (Callable cb) s
     = (\<lparr>outcome = Fulfilled GUndefined,
          calls = [(GNull, marshallToVm (cleanCircularJson response))]\<rparr>, s')"
proof -
  assume "asyncs bru ''sendRequest'' [vm_dump cfg] s = (Fulfilled response, s')"
  then have "sendRequest_promise bru (vm_dump cfg) s
      = (Fulfilled (marshallToVm (cleanCircularJson response)), s')"
    by (rule sendRequest_promise_fulfilled)
  moreover assume "cb GNull (marshallToVm (cleanCircularJson response)) = CbDone"
  ultimately show ?thesis
    by (simp add: bru_sendRequest_def shim_on_success)
qed

theorem callback_call_resolves_undefined_witness:
  "asyncs (example_bru (Fulfilled (HObj [(''status'', HNum 200)])) None) ''sendRequest''
       [vm_dump (GObj [(''url'', GStr ''/ping'')])] []
     = (Fulfilled (HObj [(''status'', HNum 200)]), []) \<and>
   rethrowing_callback GNull (marshallToVm (cleanCircularJson (HObj [(''status'', HNum 200)]))) = CbDone \<and>
   bru_sendRequest (example_bru (Fulfilled (HObj [(''status'', HNum 200)])) None)
       (GObj [(''url'', GStr ''/ping'')]) (Callable rethrowing_callback) []
     = (\<lparr>outcome = Fulfilled GUndefined, calls = [(GNull, GObj [(''status'', GNum 200)])]\<rparr>, [])"
proof -
  have ok: "asyncs (example_bru (Fulfilled (HObj [(''status'', HNum 200)])) None) ''sendRequest''
       [vm_dump (GObj [(''url'', GStr ''/ping'')])] []
     = (Fulfilled (HObj [(''status'', HNum 200)]), [])"
    by (simp add: example_bru_def)
  have completes: "rethrowing_callback GNull (marshallToVm (cleanCircularJson (HObj [(''status'', HNum 200)])))
     = CbDone"
    by (simp add: rethrowing_callback_def)
  have clean:
    "marshallToVm (cleanCircularJson (HObj [(''status'', HNum 200)])) = GObj [(''status'', GNum 200)]"
    by (simp add: cleanJson_def cleanCircularJson_def)
  from callback_call_resolves_undefined [where cb = rethrowing_callback, OF ok completes] ok completes
  show ?thesis by (simp add: clean)
qed

section \<open>Failures of the asynchronous operations\<close>




section \<open>The message of an error in the guest\<close>

text \<open>
  C5. The host dispatch of the raw send is rejected with an \<^verbatim>\<open>Error\<close> whose message
  is \<^verbatim>\<open>'timeout'\<close>. The wrapper \<^verbatim>\<open>_sendRequest\<close> rejects with the marshalled
  \<^verbatim>\<open>cleanJson(err)\<close>, which is the empty object: the guest gets an error with no
  message at all. For the same error the catch handler of \<^verbatim>\<open>getTestResults\<close> (and of
  its two siblings) builds \<^verbatim>\<open>{message: err.message}\<close> first, and the guest gets the
  message.
\<close>

theorem raw_send_drops_the_message:
  "host_call SendRequestHandle (example_bru (Rejected (ErrorInstance ''timeout'' [])) None)
       [GStr ''https://example.test''] []
     = (WPromise (Rejected (GObj [])), []) \<and>
   \<not> has_message (GObj []) \<and>
   host_call GetTestResults (example_bru (Rejected (ErrorInstance ''timeout'' [])) None) [] []
     = (WPromise (Fulfilled (GObj [(''message'', GStr ''timeout'')])), []) \<and>
   has_message (GObj [(''message'', GStr ''timeout'')])"
  by (simp add: promise_defs with_arg_Cons example_bru_def cleanJson_error_def cleanJson_def)

section \<open>The run-control operations\<close>

text \<open>
  C6, as stated, fails: the object \<^verbatim>\<open>bru\<close> has no member \<^verbatim>\<open>skipRequest\<close> and no member
  \<^verbatim>\<open>stopExecution\<close>; only \<^verbatim>\<open>bru.runner\<close> has them.
\<close>

theorem skip_and_stop_not_at_top_level:
  "surface_lookup [''bru'', ''skipRequest''] = None \<and>
   surface_lookup [''bru'', ''stopExecution''] = None"
  by (simp add: surface_lookup_at)

text \<open>
  C6, amended. \<^verbatim>\<open>setNextRequest\<close> is a member of \<^verbatim>\<open>bru\<close> and, a second time, of
  \<^verbatim>\<open>bru.runner\<close>; \<^verbatim>\<open>skipRequest\<close> and \<^verbatim>\<open>stopExecution\<close> are members of \<^verbatim>\<open>bru.runner\<close>
  only. Called with the name \<open>x\<close> of the next request, the member of \<^verbatim>\<open>bru\<close> calls the
  operation \<^verbatim>\<open>setNextRequest\<close> of the host object itself with the dumped \<open>x\<close>; each
  member of \<^verbatim>\<open>bru.runner\<close> calls the operation of the same name of the runner of the
  host object, when the runner has it, \<^verbatim>\<open>setNextRequest\<close> with the dumped \<open>x\<close> and the
  other two with no argument.
\<close>

theorem run_control_forwards:
  "surface_lookup [''bru'', ''setNextRequest''] = Some (RHostFn ''setNextRequest'' SetNextRequest) \<and>
   surface_lookup [''bru'', ''runner'', ''skipRequest'']
     = Some (RHostFn ''skipRequest'' RunnerSkipRequest) \<and>
   surface_lookup [''bru'', ''runner'', ''stopExecution'']
     = Some (RHostFn ''stopExecution'' RunnerStopExecution) \<and>
   surface_lookup [''bru'', ''runner'', ''setNextRequest'']
     = Some (RHostFn ''setNextRequest'' RunnerSetNextRequest) \<and>
   surface_members [''bru'', ''runner''] = Some [''skipRequest'', ''stopExecution'', ''setNextRequest''] \<and>
   surface_call bru [''bru'', ''setNextRequest''] (x # rest) s
     = Some (call_for_effect (ops bru ''setNextRequest'') [vm_dump x] s) \<and>
   (runner bru = Some r \<longrightarrow>
      (r ''skipRequest'' = Some f1 \<longrightarrow>
         surface_call bru [''bru'', ''runner'', ''skipRequest''] args s
           = Some (call_for_effect f1 [] s)) \<and>
      (r ''stopExecution'' = Some f2 \<longrightarrow>
         surface_call bru [''bru'', ''runner'', ''stopExecution''] args s
           = Some (call_for_effect f2 [] s)) \<and>
      (r ''setNextRequest'' = Some f3 \<longrightarrow>
         surface_call bru [''bru'', ''runner'', ''setNextRequest''] (x # rest) s
           = Some (call_for_effect f3 [vm_dump x] s)))"
  by (simp add: surface_lookup_at surface_members_at surface_call_eq discarding_def
      runner_call_def with_arg_Cons vm_dump_arg_Cons)

theorem run_control_forwards_witness:
  "runner (example_bru Pending (Some runner_ops)) = Some runner_ops \<and>
   runner_ops ''skipRequest'' = Some (signal ''runner.skipRequest'') \<and>
   runner_ops ''stopExecution'' = Some (signal ''runner.stopExecution'') \<and>
   runner_ops ''setNextRequest'' = Some (signal ''runner.setNextRequest'') \<and>
   surface_call (example_bru Pending (Some runner_ops)) [''bru'', ''setNextRequest'']
       [GStr ''login''] []
     = Some (WReturn GUndefined, [''setNextRequest'']) \<and>
   surface_call (example_bru Pending (Some runner_ops)) [''bru'', ''runner'', ''skipRequest'']
       [] []
     = Some (WReturn GUndefined, [''runner.skipRequest'']) \<and>
   surface_call (example_bru Pending (Some runner_ops)) [''bru'', ''runner'', ''stopExecution'']
       [] []
     = Some (WReturn GUndefined, [''runner.stopExecution'']) \<and>
   surface_call (example_bru Pending (Some runner_ops)) [''bru'', ''runner'', ''setNextRequest'']
       [GStr ''login''] []
     = Some (WReturn GUndefined, [''runner.setNextRequest''])"
proof -
  have r: "runner (example_bru Pending (Some runner_ops)) = Some runner_ops"
    by (simp add: example_bru_def)
  have f: "runner_ops ''skipRequest'' = Some (signal ''runner.skipRequest'')"
    "runner_ops ''stopExecution'' = Some (signal ''runner.stopExecution'')"
    "runner_ops ''setNextRequest'' = Some (signal ''runner.setNextRequest'')"
    by (simp_all add: runner_ops_def)
  have o: "ops (example_bru Pending (Some runner_ops)) = signal"
    by (simp add: example_bru_def)
  have e: "call_for_effect (signal name) hargs [] = (WReturn GUndefined, [name])" for name hargs
    by (simp add: call_for_effect_def signal_def)
  from run_control_forwards [where bru = "example_bru Pending (Some runner_ops)"
      and r = runner_ops and x = "GStr ''login''" and rest = "[]" and args = "[]" and s = "[]"
      and ?f1.0 = "signal ''runner.skipRequest''" and ?f2.0 = "signal ''runner.stopExecution''"
      and ?f3.0 = "signal ''runner.setNextRequest''"]
  show ?thesis using r f by (simp add: o e)
qed

section \<open>A host object without a runner\<close>

text \<open>
  C10, as stated, fails in its second case: when the runner is there and lacks the
  operation, the call is a \<^verbatim>\<open>TypeError\<close> thrown into the guest, not a no-op.
\<close>

theorem runner_without_operation_throws:
  "surface_call (example_bru Pending (Some (\<lambda>name. None))) [''bru'', ''runner'', ''skipRequest''] [] []
     = Some (WThrow TypeError, [])"
  by (simp add: surface_lookup_at surface_call_eq runner_call_def example_bru_def)

text \<open>
  C10, amended. When the host object has no runner, \<^verbatim>\<open>bru.runner.skipRequest()\<close>,
  \<^verbatim>\<open>bru.runner.stopExecution()\<close> and \<^verbatim>\<open>bru.runner.setNextRequest(name)\<close> return
  \<^verbatim>\<open>undefined\<close>, throw nothing and leave the state of the host as it was.
\<close>

theorem no_runner_is_no_op:
  "runner bru = None \<Longrightarrow>
   surface_call bru [''bru'', ''runner'', ''skipRequest''] args s = Some (WReturn GUndefined, s) \<and>
   surface_call bru [''bru'', ''runner'', ''stopExecution''] args s = Some (WReturn GUndefined, s) \<and>
   surface_call bru [''bru'', ''runner'', ''setNextRequest''] args s = Some (WReturn GUndefined, s)"
proof -
  assume "runner bru = None"
  then have cut_short: "runner_call bru name hargs s = (WReturn GUndefined, s)" for name hargs
    by (simp add: runner_call_def)
  show ?thesis
    by (simp add: surface_call_eq surface_lookup_at cut_short)
qed

theorem no_runner_is_no_op_witness:
  "runner (example_bru Pending None) = None \<and>
   surface_call (example_bru Pending None) [''bru'', ''runner'', ''skipRequest''] [] [''sent'']
     = Some (WReturn GUndefined, [''sent'']) \<and>
   surface_call (example_bru Pending None) [''bru'', ''runner'', ''stopExecution''] [] [''sent'']
     = Some (WReturn GUndefined, [''sent'']) \<and>
   surface_call (example_bru Pending None) [''bru'', ''runner'', ''setNextRequest'']
       [GStr ''login''] [''sent'']
     = Some (WReturn GUndefined, [''sent''])"
proof -
  have r: "runner (example_bru Pending None) = None"
    by (simp add: example_bru_def)
  from no_runner_is_no_op [OF r, of "[]" "[''sent'']"]
    no_runner_is_no_op [OF r, of "[GStr ''login'']" "[''sent'']"] r
  show ?thesis by simp
qed

section \<open>Round trip through the codec\<close>

text \<open>
  C8. A JSON-safe value (scalars, arrays, objects with string keys) that is marshalled
  into the guest and dumped back to the host is the value it was, members and elements
  in their order; this also holds when the value passes through \<^verbatim>\<open>cleanJson\<close> on the
  way in, as the results of the asynchronous wrappers do. Through the wrappers: the
  value that \<^verbatim>\<open>bru.getVar\<close> hands to the script, passed on by the script to
  \<^verbatim>\<open>bru.setVar\<close>, reaches the host as the value the host returned.
\<close>

theorem codec_round_trip:
  "json_safe v \<Longrightarrow>
   vm_dump (marshallToVm v) = v \<and>
   vm_dump (marshallToVm (cleanJson v)) = v \<and>
   (ops bru ''getVar'' [vm_dump key] s = (Ret v, s1) \<longrightarrow>
      host_call GetVar bru [key] s = (WReturn (marshallToVm v), s1) \<and>
      host_call SetVar bru [name, marshallToVm v] s1
        = call_for_effect (ops bru ''setVar'') [vm_dump name, v] s1)"
proof (intro conjI impI)
  show "vm_dump (marshallToVm v) = v"
    by (rule vm_dump_marshallToVm)
next
  assume "json_safe v"
  then have "cleanJson v = v" by (rule cleanJson_safe)
  then show "vm_dump (marshallToVm (cleanJson v)) = v"
    by (simp add: vm_dump_marshallToVm)
next
  assume "ops bru ''getVar'' [vm_dump key] s = (Ret v, s1)"
  then show "host_call GetVar bru [key] s = (WReturn (marshallToVm v), s1)"
    by (simp add: returning_def with_arg_Cons)
next
  show "host_call SetVar bru [name, marshallToVm v] s1
        = call_for_effect (ops bru ''setVar'') [vm_dump name, v] s1"
    by (simp add: discarding_def with_two_args_Cons vm_dump_marshallToVm)
qed

theorem codec_round_trip_witness:
  "json_safe (HObj [(''b'', HArr [HNum 1, HStr ''x'', HBool True]), (''a'', HNull)]) \<and>
   vm_dump (marshallToVm (HObj [(''b'', HArr [HNum 1, HStr ''x'', HBool True]), (''a'', HNull)]))
     = HObj [(''b'', HArr [HNum 1, HStr ''x'', HBool True]), (''a'', HNull)] \<and>
   vm_dump (marshallToVm (cleanJson
       (HObj [(''b'', HArr [HNum 1, HStr ''x'', HBool True]), (''a'', HNull)])))
     = HObj [(''b'', HArr [HNum 1, HStr ''x'', HBool True]), (''a'', HNull)] \<and>
   ops var_store_bru ''getVar'' [vm_dump (GStr ''x'')]
       [(''x'', HObj [(''b'', HArr [HNum 1, HStr ''x'', HBool True]), (''a'', HNull)])]
     = (Ret (HObj [(''b'', HArr [HNum 1, HStr ''x'', HBool True]), (''a'', HNull)]),
        [(''x'', HObj [(''b'', HArr [HNum 1, HStr ''x'', HBool True]), (''a'', HNull)])]) \<and>
   host_call GetVar var_store_bru [GStr ''x'']
       [(''x'', HObj [(''b'', HArr [HNum 1, HStr ''x'', HBool True]), (''a'', HNull)])]
     = (WReturn (GObj [(''b'', GArr [GNum 1, GStr ''x'', GBool True]), (''a'', GNull)]),
        [(''x'', HObj [(''b'', HArr [HNum 1, HStr ''x'', HBool True]), (''a'', HNull)])]) \<and>
   host_call SetVar var_store_bru
       [GStr ''y'', GObj [(''b'', GArr [GNum 1, GStr ''x'', GBool True]), (''a'', GNull)]]
       [(''x'', HObj [(''b'', HArr [HNum 1, HStr ''x'', HBool True]), (''a'', HNull)])]
     = (WReturn GUndefined,
        [(''y'', HObj [(''b'', HArr [HNum 1, HStr ''x'', HBool True]), (''a'', HNull)]),
         (''x'', HObj [(''b'', HArr [HNum 1, HStr ''x'', HBool True]), (''a'', HNull)])])"
proof -
  let ?v = "HObj [(''b'', HArr [HNum 1, HStr ''x'', HBool True]), (''a'', HNull)]"
  have safe: "json_safe ?v"
    by simp
  have got: "ops var_store_bru ''getVar'' [vm_dump (GStr ''x'')] [(''x'', ?v)] = (Ret ?v, [(''x'', ?v)])"
    by (simp add: var_store_bru_def)
  have put: "call_for_effect (ops var_store_bru ''setVar'') [vm_dump (GStr ''y''), ?v] [(''x'', ?v)]
      = (WReturn GUndefined, [(''y'', ?v), (''x'', ?v)])"
    by (simp add: var_store_bru_def call_for_effect_def)
  have m: "marshallToVm ?v = GObj [(''b'', GArr [GNum 1, GStr ''x'', GBool True]), (''a'', GNull)]"
    by simp
  from codec_round_trip [OF safe, where bru = var_store_bru and key = "GStr ''x''"
      and s = "[(''x'', ?v)]" and ?s1.0 = "[(''x'', ?v)]" and name = "GStr ''y''"]
  show ?thesis using safe got put unfolding m by simp
qed

section \<open>Handles made and handles disposed\<close>

text \<open>
  C2. On a fresh context the shim makes 33 handles (the objects \<^verbatim>\<open>bruObject\<close> and
  \<^verbatim>\<open>bruRunnerObject\<close> and 31 functions) and disposes 32 of them. The handle left alive
  is the second one made, \<^verbatim>\<open>bruRunnerObject\<close>: it refers to the object that
  \<^verbatim>\<open>bru.runner\<close> is, and the shim has no \<^verbatim>\<open>bruRunnerObject.dispose()\<close> beside its
  \<^verbatim>\<open>bruObject.dispose()\<close>.
\<close>

theorem runner_object_handle_left_alive:
  "map_option
     (\<lambda>vm. (created vm, disposed vm, handles vm, lookup_path vm [''bru'', ''runner'']))
     (addBruShimToContext fresh_vm)
   = Some (33, 32, [(1, RObj 2)], Some (RObj 2))"
  by code_simp

end
